theory Spec2Isabelle
  imports Main
begin

section \<open>The Aerospike test container: a shallow embedding of aerospike.go\<close>

text \<open>
  Go strings are byte sequences, and so are the \<open>string\<close>s of HOL (lists of 8-bit
  characters): a unicode string is its UTF-8 bytes, an embedded NUL, newline or tab is
  one more character. The \<open>context.Context\<close> argument of every function only carries
  cancellation through to the framework and is left out.
\<close>

subsection \<open>Constants\<close>

definition aerospikeServicePort :: string where
  "aerospikeServicePort = ''3000/tcp''"

definition communityAerospikeImage :: string where
  "communityAerospikeImage = ''aerospike/aerospike-server:8.0''"

definition enterpriseAerospikeImage :: string where
  "enterpriseAerospikeImage = ''aerospike/aerospike-server-enterprise:8.0''"

subsection \<open>Errors, panics and results\<close>

text \<open>
  A Go \<open>error\<close> value is either one that comes from outside the module (the framework
  or a caller's option), named by its message, or the result of
  \<open>fmt.Errorf(prefix + "%w", err)\<close>, which wraps \<open>err\<close> once. A nil error is
  \<open>None\<close> of \<open>error option\<close>.
\<close>

datatype error = Err string | Errorf string error

text \<open>
  A run-time panic is not an error value: it unwinds the caller instead of being
  returned. A Go call either panics or returns its results.
\<close>

datatype panic = NilPointerDereference | AssignmentToNilMap

datatype 'a go_result = Panic panic | Return 'a

subsection \<open>The orchestration framework's data\<close>

text \<open>\<open>nat.Port\<close>: a port number with its protocol; \<open>Port_Int\<close> is its method \<open>Int()\<close>.\<close>

datatype Port = Port (Port_Int: int) (Port_Proto: string)

text \<open>
  The framework's container handle, seen through the two methods the module calls.
  \<open>MappedPort\<close> answers with a port and an error, as the Go method does.
  \<open>Exec\<close> runs a command in the container: the handle answers with an exit code,
  the output and an error (\<open>ExecAnswer\<close>), and the command joins the commands run
  so far (\<open>Executed\<close>, oldest first).
\<close>

record TCContainer =
  MappedPort :: "string \<Rightarrow> Port \<times> error option"
  ExecAnswer :: "string list \<Rightarrow> int \<times> string \<times> error option"
  Executed :: "string list list"

definition Exec :: "TCContainer \<Rightarrow> string list \<Rightarrow> (int \<times> string \<times> error option) \<times> TCContainer" where
  "Exec c cmd = (ExecAnswer c cmd, c\<lparr>Executed := Executed c @ [cmd]\<rparr>)"

text \<open>
  \<open>testcontainers.ContainerHook\<close> is \<open>func(ctx, c Container) error\<close>: it acts on the
  container and returns an error. \<open>wait.Strategy\<close> is an interface with one method
  \<open>WaitUntilReady(ctx, target) error\<close>.
\<close>

type_synonym ContainerHook = "TCContainer \<Rightarrow> error option \<times> TCContainer"

type_synonym WaitStrategy = "TCContainer \<Rightarrow> error option"

text \<open>
  \<open>testcontainers.ContainerLifecycleHooks\<close>, \<open>testcontainers.ContainerRequest\<close> and
  \<open>testcontainers.GenericContainerRequest\<close>. Only the fields the module names are
  fields of the records; the structs' other fields hold their zero values in every
  literal of the module and no function of the module touches them.
  \<open>GenericContainerRequest\<close> embeds \<open>ContainerRequest\<close>, so the latter's fields are
  fields of the former. A Go map is nil or a map: \<open>Env\<close> is \<open>None\<close> when nil.
  An interface value is nil or a value: \<open>WaitingFor\<close> is \<open>None\<close> when nil.
  A nil slice is the empty list.
\<close>

record ContainerLifecycleHooks =
  PostStarts :: "ContainerHook list"

record ContainerRequest =
  Image :: string
  ExposedPorts :: "string list"
  Env :: "(string \<rightharpoonup> string) option"
  WaitingFor :: "WaitStrategy option"
  LifecycleHooks :: "ContainerLifecycleHooks list"

record GenericContainerRequest = ContainerRequest +
  Started :: bool

text \<open>
  Go's map operations. Reading a key of a nil map, or a key that is absent, gives the
  zero value (the empty string); assigning to an entry of a nil map panics.
\<close>

definition map_index :: "(string \<rightharpoonup> string) option \<Rightarrow> string \<Rightarrow> string" where
  "map_index m k = (case m of None \<Rightarrow> '''' | Some f \<Rightarrow> (case f k of None \<Rightarrow> '''' | Some v \<Rightarrow> v))"

definition map_assign ::
  "(string \<rightharpoonup> string) option \<Rightarrow> string \<Rightarrow> string \<Rightarrow> (string \<rightharpoonup> string) option go_result" where
  "map_assign m k v = (case m of None \<Rightarrow> Panic AssignmentToNilMap | Some f \<Rightarrow> Return (Some (f(k \<mapsto> v))))"

subsection \<open>Option functions\<close>

text \<open>
  \<open>testcontainers.CustomizeRequestOption\<close> is \<open>func(req *GenericContainerRequest) error\<close>.
  The argument is a pointer: \<open>None\<close> is the nil pointer, \<open>Some r\<close> points to a request
  whose value is \<open>r\<close>. A call panics, or returns its error together with what the
  pointer refers to after the call (the callee cannot change the pointer itself: nil
  stays nil). \<open>testcontainers.ContainerCustomizer\<close> is the interface with the method
  \<open>Customize(req) error\<close>; a \<open>CustomizeRequestOption\<close> implements it by calling itself.
\<close>

type_synonym CustomizeRequestOption =
  "GenericContainerRequest option \<Rightarrow> (error option \<times> GenericContainerRequest option) go_result"

type_synonym ContainerCustomizer = CustomizeRequestOption

text \<open>
  Modelled from the spec: \<open>testcontainers.WithImage\<close> belongs to the orchestration
  framework and is not among the sources. The spec: the image selector "overwrites the
  image field with a literal string"; the test TestWithImageOption reads the image back
  after a call that returns no error. It assigns \<open>req.Image\<close> through the pointer, which
  in Go panics on a nil pointer.
\<close>

definition testcontainers_WithImage :: "string \<Rightarrow> CustomizeRequestOption" where
  "testcontainers_WithImage img req =
     (case req of
        None \<Rightarrow> Panic NilPointerDereference
      | Some r \<Rightarrow> Return (None, Some (r\<lparr>Image := img\<rparr>)))"

definition WithImage :: "string \<Rightarrow> CustomizeRequestOption" where
  "WithImage img = testcontainers_WithImage img"

definition WithEnterpriseEdition :: CustomizeRequestOption where
  "WithEnterpriseEdition = WithImage enterpriseAerospikeImage"

text \<open>
  \<open>WithNamespace\<close> and \<open>WithLogLevel\<close>: reading \<open>req.Env\<close> dereferences the pointer;
  a nil map is replaced by a fresh empty one; then the entry is assigned.
\<close>

definition WithNamespace :: "string \<Rightarrow> CustomizeRequestOption" where
  "WithNamespace namespace req =
     (case req of
        None \<Rightarrow> Panic NilPointerDereference
      | Some r \<Rightarrow>
          (let r1 = (case Env r of None \<Rightarrow> r\<lparr>Env := Some Map.empty\<rparr> | Some m \<Rightarrow> r) in
           case map_assign (Env r1) ''NAMESPACE'' namespace of
             Panic p \<Rightarrow> Panic p
           | Return env \<Rightarrow> Return (None, Some (r1\<lparr>Env := env\<rparr>))))"

definition WithLogLevel :: "string \<Rightarrow> CustomizeRequestOption" where
  "WithLogLevel logLevel req =
     (case req of
        None \<Rightarrow> Panic NilPointerDereference
      | Some r \<Rightarrow>
          (let r1 = (case Env r of None \<Rightarrow> r\<lparr>Env := Some Map.empty\<rparr> | Some m \<Rightarrow> r) in
           case map_assign (Env r1) ''AEROSPIKE_LOG_LEVEL'' logLevel of
             Panic p \<Rightarrow> Panic p
           | Return env \<Rightarrow> Return (None, Some (r1\<lparr>Env := env\<rparr>))))"

text \<open>
  \<open>WithTTLSupport\<close>: the default is chosen when the option is built, not when it is
  applied. The post-start hook is the closure of the source; \<open>fmt.Sprintf\<close> with one
  \<open>%s\<close> puts the namespace between the two fixed parts of the format. The hook keeps
  only the error of \<open>Exec\<close>.
\<close>

definition WithTTLSupport :: "string \<Rightarrow> CustomizeRequestOption" where
  "WithTTLSupport namespace0 =
     (let namespace = (if namespace0 = '''' then ''test'' else namespace0) in
      (\<lambda>req. case req of
         None \<Rightarrow> Panic NilPointerDereference
       | Some r \<Rightarrow>
           Return (None, Some (r\<lparr>LifecycleHooks := LifecycleHooks r @
             [\<lparr>PostStarts =
                [\<lambda>c. (let cmd = [''asinfo'', ''-v'',
                                  ''set-config:context=namespace;id='' @ namespace @ '';nsup-period=10''];
                           ((exitCode, output, err), c') = Exec c cmd
                       in (err, c'))]\<rparr>]\<rparr>))))"

subsection \<open>The container launcher\<close>

text \<open>
  The framework, seen through \<open>testcontainers.GenericContainer\<close>: it answers a request
  with a container handle (an interface value, possibly nil) and an error
  (\<open>GenericContainerAnswer\<close>), and the request joins the requests it was asked to create
  and start so far (\<open>Requested\<close>, oldest first).
\<close>

record Framework =
  GenericContainerAnswer :: "GenericContainerRequest \<Rightarrow> TCContainer option \<times> error option"
  Requested :: "GenericContainerRequest list"

definition GenericContainer ::
  "Framework \<Rightarrow> GenericContainerRequest \<Rightarrow> (TCContainer option \<times> error option) \<times> Framework" where
  "GenericContainer fw req = (GenericContainerAnswer fw req, fw\<lparr>Requested := Requested fw @ [req]\<rparr>)"

text \<open>
  \<open>Container\<close> embeds the framework's handle, an interface value that may be nil.
\<close>

datatype Container = Container (embedded: "TCContainer option")

text \<open>
  The loop of \<open>RunContainer\<close> over its options: each is applied to a pointer to the
  local request; the first error ends the loop with the wrapped error. The pointer is
  passed by value, so the local request stays where it is whatever the option answers.
\<close>

fun applyOptions ::
  "ContainerCustomizer list \<Rightarrow> GenericContainerRequest \<Rightarrow> (error + GenericContainerRequest) go_result" where
  "applyOptions [] genericContainerRequest = Return (Inr genericContainerRequest)"
| "applyOptions (opt # opts) genericContainerRequest =
     (case opt (Some genericContainerRequest) of
        Panic p \<Rightarrow> Panic p
      | Return (Some err, _) \<Rightarrow> Return (Inl (Errorf ''failed to apply option: '' err))
      | Return (None, Some r) \<Rightarrow> applyOptions opts r
      | Return (None, None) \<Rightarrow> applyOptions opts genericContainerRequest)"

text \<open>
  \<open>newAerospikeWaitStrategy\<close> is declared in a file that is not among the sources: the
  strategy it returns is a parameter of \<open>RunContainer\<close>. The result is the pair the Go
  function returns (a nil \<open>*Container\<close> is \<open>None\<close>), with the framework afterwards.
\<close>

definition RunContainer ::
  "WaitStrategy \<Rightarrow> Framework \<Rightarrow> ContainerCustomizer list \<Rightarrow>
     (Container option \<times> error option) go_result \<times> Framework" where
  "RunContainer newAerospikeWaitStrategy fw opts =
     (let genericContainerRequest =
            \<lparr>Image = communityAerospikeImage,
             ExposedPorts = [''3000/tcp''],
             Env = None,
             WaitingFor = Some newAerospikeWaitStrategy,
             LifecycleHooks = [],
             Started = True\<rparr>
      in case applyOptions opts genericContainerRequest of
           Panic p \<Rightarrow> (Panic p, fw)
         | Return (Inl err) \<Rightarrow> (Return (None, Some err), fw)
         | Return (Inr req) \<Rightarrow>
             (case GenericContainer fw req of
                ((container, Some err), fw') \<Rightarrow>
                  (Return (None, Some (Errorf ''failed to start Aerospike: '' err)), fw')
              | ((container, None), fw') \<Rightarrow>
                  (Return (Some (Container container), None), fw')))"

text \<open>
  \<open>ServicePort\<close>: calling a method of a nil embedded interface panics.
\<close>

definition ServicePort :: "Container \<Rightarrow> (int \<times> error option) go_result" where
  "ServicePort c =
     (case embedded c of
        None \<Rightarrow> Panic NilPointerDereference
      | Some tc \<Rightarrow>
          (case MappedPort tc aerospikeServicePort of
             (port, Some err) \<Rightarrow> Return (0, Some err)
           | (port, None) \<Rightarrow> Return (Port_Int port, None)))"

subsection \<open>What the specification says, in its own words\<close>

text \<open>
  "Apply options strictly in the order given": \<open>applied_in_order opts r r'\<close> holds when
  the options, each applied to the request the one before it left, each returning no
  error, lead from \<open>r\<close> to \<open>r'\<close>.
\<close>

inductive applied_in_order ::
  "ContainerCustomizer list \<Rightarrow> GenericContainerRequest \<Rightarrow> GenericContainerRequest \<Rightarrow> bool" where
  none: "applied_in_order [] r r"
| next_option: "opt (Some r) = Return (None, Some r') \<Longrightarrow> applied_in_order opts r' r'' \<Longrightarrow>
     applied_in_order (opt # opts) r r''"

subsection \<open>Reading results and environments\<close>

text \<open>
  A call \<open>returns_error\<close> when it returns and its error is not nil, and
  \<open>returns_no_error\<close> when it returns and its error is nil. A panic is neither.
\<close>

fun returns_error :: "(error option \<times> 'a) go_result \<Rightarrow> bool" where
  "returns_error (Return (Some e, t)) = True"
| "returns_error (Return (None, t)) = False"
| "returns_error (Panic p) = False"

fun returns_no_error :: "(error option \<times> 'a) go_result \<Rightarrow> bool" where
  "returns_no_error (Return (None, t)) = True"
| "returns_no_error (Return (Some e, t)) = False"
| "returns_no_error (Panic p) = False"

text \<open>
  The entry of an environment under a key, when there is one, and the keys that have an
  entry. Unlike \<open>map_index\<close>, \<open>env_entry\<close> tells an absent entry from an empty one.
\<close>

definition env_entry :: "(string \<rightharpoonup> string) option \<Rightarrow> string \<Rightarrow> string option" where
  "env_entry m k = (case m of None \<Rightarrow> None | Some f \<Rightarrow> f k)"

definition env_keys :: "(string \<rightharpoonup> string) option \<Rightarrow> string set" where
  "env_keys m = (case m of None \<Rightarrow> {} | Some f \<Rightarrow> dom f)"

subsection \<open>Sample values\<close>

text \<open>
  \<open>zeroRequest\<close> is \<open>&testcontainers.GenericContainerRequest{}\<close>, the request the unit
  tests start from. The other values stand for a framework that starts a container whose
  service port is mapped to 32768, for a container that is not running, for a framework
  that cannot reach its container runtime, and for a caller's option that returns an
  error.
\<close>

definition zeroRequest :: GenericContainerRequest where
  "zeroRequest =
     \<lparr>Image = '''', ExposedPorts = [], Env = None, WaitingFor = None, LifecycleHooks = [],
      Started = False\<rparr>"

definition runningContainer :: TCContainer where
  "runningContainer =
     \<lparr>MappedPort = (\<lambda>p. if p = ''3000/tcp'' then (Port 32768 ''tcp'', None)
                          else (Port 0 '''', Some (Err ''port not found''))),
      ExecAnswer = (\<lambda>cmd. (0, '''', None)),
      Executed = []\<rparr>"

definition stoppedContainer :: TCContainer where
  "stoppedContainer =
     \<lparr>MappedPort = (\<lambda>p. (Port 0 '''', Some (Err ''container is not running''))),
      ExecAnswer = (\<lambda>cmd. (0, '''', Some (Err ''container is not running''))),
      Executed = []\<rparr>"

definition workingFramework :: Framework where
  "workingFramework =
     \<lparr>GenericContainerAnswer = (\<lambda>req. (Some runningContainer, None)), Requested = []\<rparr>"

definition brokenFramework :: Framework where
  "brokenFramework =
     \<lparr>GenericContainerAnswer = (\<lambda>req. (None, Some (Err ''docker is not available''))),
      Requested = []\<rparr>"

definition failingOption :: ContainerCustomizer where
  "failingOption req = Return (Some (Err ''rejected''), req)"

section \<open>What each option does to its target\<close>

lemma WithNamespace_None: "WithNamespace s None = Panic NilPointerDereference"
  by (simp add: WithNamespace_def)

lemma WithLogLevel_None: "WithLogLevel s None = Panic NilPointerDereference"
  by (simp add: WithLogLevel_def)

lemma WithTTLSupport_None: "WithTTLSupport s None = Panic NilPointerDereference"
  by (simp add: WithTTLSupport_def Let_def)

text \<open>The guard against a nil map makes the assignment safe: no panic on a request.\<close>

lemma WithNamespace_Some:
  "WithNamespace s (Some r) =
     Return (None, Some (r\<lparr>Env :=
       Some ((case Env r of None \<Rightarrow> Map.empty | Some m \<Rightarrow> m)(''NAMESPACE'' \<mapsto> s))\<rparr>))"
  by (simp add: WithNamespace_def map_assign_def split: option.split)

lemma WithLogLevel_Some:
  "WithLogLevel s (Some r) =
     Return (None, Some (r\<lparr>Env :=
       Some ((case Env r of None \<Rightarrow> Map.empty | Some m \<Rightarrow> m)(''AEROSPIKE_LOG_LEVEL'' \<mapsto> s))\<rparr>))"
  by (simp add: WithLogLevel_def map_assign_def split: option.split)

lemma WithImage_Some: "WithImage v (Some r) = Return (None, Some (r\<lparr>Image := v\<rparr>))"
  by (simp add: WithImage_def testcontainers_WithImage_def)

lemma WithTTLSupport_Some:
  "WithTTLSupport s (Some r) =
     Return (None, Some (r\<lparr>LifecycleHooks := LifecycleHooks r @
       [\<lparr>PostStarts =
          [\<lambda>c. (snd (snd (ExecAnswer c [''asinfo'', ''-v'',
                    ''set-config:context=namespace;id='' @ (if s = '''' then ''test'' else s) @
                    '';nsup-period=10''])),
                 c\<lparr>Executed := Executed c @ [[''asinfo'', ''-v'',
                    ''set-config:context=namespace;id='' @ (if s = '''' then ''test'' else s) @
                    '';nsup-period=10'']]\<rparr>)]\<rparr>]\<rparr>))"
  by (simp add: WithTTLSupport_def Let_def Exec_def split_def)

section \<open>The launcher's loop\<close>

lemma applied_in_order_applyOptions:
  "applied_in_order opts r r' \<Longrightarrow> applyOptions opts r = Return (Inr r')"
  by (induction rule: applied_in_order.induct) simp_all

lemma applied_in_order_then_error:
  "applied_in_order pre r r1 \<Longrightarrow> opt (Some r1) = Return (Some e, t) \<Longrightarrow>
   applyOptions (pre @ opt # post) r = Return (Inl (Errorf ''failed to apply option: '' e))"
  by (induction rule: applied_in_order.induct) simp_all

lemma RunContainer_applied:
  assumes "applied_in_order opts
      \<lparr>Image = ''aerospike/aerospike-server:8.0'', ExposedPorts = [''3000/tcp''], Env = None,
       WaitingFor = Some ws, LifecycleHooks = [], Started = True\<rparr> req"
  shows "RunContainer ws fw opts =
      (case GenericContainerAnswer fw req of
         (container, None) \<Rightarrow> Return (Some (Container container), None)
       | (container, Some err) \<Rightarrow>
           Return (None, Some (Errorf ''failed to start Aerospike: '' err)),
       fw\<lparr>Requested := Requested fw @ [req]\<rparr>)"
  using applied_in_order_applyOptions [OF assms]
  by (simp add: RunContainer_def communityAerospikeImage_def GenericContainer_def Let_def
      split: prod.split option.split)

lemma RunContainer_option_error:
  assumes "applied_in_order pre
      \<lparr>Image = ''aerospike/aerospike-server:8.0'', ExposedPorts = [''3000/tcp''], Env = None,
       WaitingFor = Some ws, LifecycleHooks = [], Started = True\<rparr> r"
    and "opt (Some r) = Return (Some e, t)"
  shows "RunContainer ws fw (pre @ opt # post) =
      (Return (None, Some (Errorf ''failed to apply option: '' e)), fw)"
  using applied_in_order_then_error [where opt = opt and post = post, OF assms]
  by (simp add: RunContainer_def communityAerospikeImage_def Let_def)

section \<open>The claims\<close>

text \<open>
  C1, as the code has it. Applied to a nil target, the namespace, log-level and
  time-to-live options do not return an error: they do not return at all, they panic on
  the nil-pointer dereference. Applied to a request, each of the five options returns a
  nil error, whatever string it was built from: nothing is validated.
\<close>

theorem options_validate_nothing:
  "WithNamespace s None = Panic NilPointerDereference \<and>
   WithLogLevel s None = Panic NilPointerDereference \<and>
   WithTTLSupport s None = Panic NilPointerDereference \<and>
   returns_no_error (WithNamespace s (Some r)) \<and>
   returns_no_error (WithLogLevel s (Some r)) \<and>
   returns_no_error (WithTTLSupport s (Some r)) \<and>
   returns_no_error (WithImage s (Some r)) \<and>
   returns_no_error (WithEnterpriseEdition (Some r))"
  by (simp add: WithNamespace_None WithLogLevel_None WithTTLSupport_None WithNamespace_Some
      WithLogLevel_Some WithTTLSupport_Some WithImage_Some WithEnterpriseEdition_def)

text \<open>
  C1 as the specification words it fails: the namespace option applied to a nil target
  does not return an error, it panics.
\<close>

theorem WithNamespace_nil_target_returns_no_error_value:
  "\<not> returns_error (WithNamespace ''custom-namespace'' None) \<and>
   WithNamespace ''custom-namespace'' None = Panic NilPointerDereference"
  by (simp add: WithNamespace_None)

text \<open>
  C2. For every string \<open>s\<close> and every request, the namespace option built from \<open>s\<close>
  returns no error, and reading the entry \<open>NAMESPACE\<close> of the environment afterwards
  gives exactly \<open>s\<close>.
\<close>

theorem WithNamespace_roundtrip:
  "\<exists>r'. WithNamespace s (Some r) = Return (None, Some r') \<and>
     map_index (Env r') ''NAMESPACE'' = s"
  by (simp add: WithNamespace_Some map_index_def)

text \<open>
  C2 on the zero request, for a namespace with a NUL, a newline, a tab and a byte
  outside ASCII.
\<close>

theorem WithNamespace_roundtrip_control_characters:
  "\<exists>r'. WithNamespace [CHR ''n'', CHR 0x00, CHR 0x0A, CHR 0x09, CHR 0xE5] (Some zeroRequest) =
       Return (None, Some r') \<and>
     map_index (Env r') ''NAMESPACE'' = [CHR ''n'', CHR 0x00, CHR 0x0A, CHR 0x09, CHR 0xE5]"
  using WithNamespace_roundtrip [of "[CHR ''n'', CHR 0x00, CHR 0x0A, CHR 0x09, CHR 0xE5]" zeroRequest]
  by simp

text \<open>
  C3, as the code has it. For the options that set a value: applying the namespace
  option twice, in the launcher's order, leaves the request that the later application
  alone leaves: the entry \<open>NAMESPACE\<close> holds the later value, and \<open>NAMESPACE\<close> is the
  only key the environment gained. The same holds of the log-level option and its key
  \<open>AEROSPIKE_LOG_LEVEL\<close>. Two image options (the second possibly the enterprise one)
  leave the later image and write no environment key. The time-to-live option sets no
  value and overrides nothing: two applications append two entries to the lifecycle
  hooks, in call order, and write no environment key.
\<close>

theorem same_option_twice_later_wins:
  "applyOptions [WithNamespace s1, WithNamespace s2] r = applyOptions [WithNamespace s2] r \<and>
   (\<exists>r'. applyOptions [WithNamespace s1, WithNamespace s2] r = Return (Inr r') \<and>
      map_index (Env r') ''NAMESPACE'' = s2 \<and>
      env_keys (Env r') = insert ''NAMESPACE'' (env_keys (Env r))) \<and>
   applyOptions [WithLogLevel s1, WithLogLevel s2] r = applyOptions [WithLogLevel s2] r \<and>
   (\<exists>r'. applyOptions [WithLogLevel s1, WithLogLevel s2] r = Return (Inr r') \<and>
      map_index (Env r') ''AEROSPIKE_LOG_LEVEL'' = s2 \<and>
      env_keys (Env r') = insert ''AEROSPIKE_LOG_LEVEL'' (env_keys (Env r))) \<and>
   applyOptions [WithImage s1, WithImage s2] r = applyOptions [WithImage s2] r \<and>
   (\<exists>r'. applyOptions [WithImage s1, WithImage s2] r = Return (Inr r') \<and>
      Image r' = s2 \<and> env_keys (Env r') = env_keys (Env r)) \<and>
   applyOptions [WithImage s1, WithEnterpriseEdition] r = applyOptions [WithEnterpriseEdition] r \<and>
   (\<exists>r'. applyOptions [WithImage s1, WithEnterpriseEdition] r = Return (Inr r') \<and>
      Image r' = ''aerospike/aerospike-server-enterprise:8.0'' \<and>
      env_keys (Env r') = env_keys (Env r)) \<and>
   (\<exists>r' first second.
      applyOptions [WithTTLSupport s1] r =
        Return (Inr (r\<lparr>LifecycleHooks := LifecycleHooks r @ [first]\<rparr>)) \<and>
      applyOptions [WithTTLSupport s2] r =
        Return (Inr (r\<lparr>LifecycleHooks := LifecycleHooks r @ [second]\<rparr>)) \<and>
      applyOptions [WithTTLSupport s1, WithTTLSupport s2] r = Return (Inr r') \<and>
      LifecycleHooks r' = LifecycleHooks r @ [first, second] \<and>
      env_keys (Env r') = env_keys (Env r))"
proof -
  have setters:
    "applyOptions [WithNamespace s1, WithNamespace s2] r = applyOptions [WithNamespace s2] r \<and>
     (\<exists>r'. applyOptions [WithNamespace s1, WithNamespace s2] r = Return (Inr r') \<and>
        map_index (Env r') ''NAMESPACE'' = s2 \<and>
        env_keys (Env r') = insert ''NAMESPACE'' (env_keys (Env r))) \<and>
     applyOptions [WithLogLevel s1, WithLogLevel s2] r = applyOptions [WithLogLevel s2] r \<and>
     (\<exists>r'. applyOptions [WithLogLevel s1, WithLogLevel s2] r = Return (Inr r') \<and>
        map_index (Env r') ''AEROSPIKE_LOG_LEVEL'' = s2 \<and>
        env_keys (Env r') = insert ''AEROSPIKE_LOG_LEVEL'' (env_keys (Env r))) \<and>
     applyOptions [WithImage s1, WithImage s2] r = applyOptions [WithImage s2] r \<and>
     (\<exists>r'. applyOptions [WithImage s1, WithImage s2] r = Return (Inr r') \<and>
        Image r' = s2 \<and> env_keys (Env r') = env_keys (Env r)) \<and>
     applyOptions [WithImage s1, WithEnterpriseEdition] r = applyOptions [WithEnterpriseEdition] r \<and>
     (\<exists>r'. applyOptions [WithImage s1, WithEnterpriseEdition] r = Return (Inr r') \<and>
        Image r' = ''aerospike/aerospike-server-enterprise:8.0'' \<and>
        env_keys (Env r') = env_keys (Env r))"
    by (simp add: WithNamespace_Some WithLogLevel_Some WithImage_Some WithEnterpriseEdition_def
        enterpriseAerospikeImage_def map_index_def env_keys_def split: option.split)
  obtain first where first:
    "WithTTLSupport s1 (Some r) =
       Return (None, Some (r\<lparr>LifecycleHooks := LifecycleHooks r @ [first]\<rparr>))"
    by (simp add: WithTTLSupport_Some)
  obtain second where second:
    "\<And>q. WithTTLSupport s2 (Some q) =
       Return (None, Some (q\<lparr>LifecycleHooks := LifecycleHooks q @ [second]\<rparr>))"
    by (simp add: WithTTLSupport_Some)
  have "applyOptions [WithTTLSupport s1] r =
        Return (Inr (r\<lparr>LifecycleHooks := LifecycleHooks r @ [first]\<rparr>)) \<and>
      applyOptions [WithTTLSupport s2] r =
        Return (Inr (r\<lparr>LifecycleHooks := LifecycleHooks r @ [second]\<rparr>)) \<and>
      applyOptions [WithTTLSupport s1, WithTTLSupport s2] r =
        Return (Inr (r\<lparr>LifecycleHooks := LifecycleHooks r @ [first, second]\<rparr>))"
    by (simp add: first second)
  then have "\<exists>r' first second.
      applyOptions [WithTTLSupport s1] r =
        Return (Inr (r\<lparr>LifecycleHooks := LifecycleHooks r @ [first]\<rparr>)) \<and>
      applyOptions [WithTTLSupport s2] r =
        Return (Inr (r\<lparr>LifecycleHooks := LifecycleHooks r @ [second]\<rparr>)) \<and>
      applyOptions [WithTTLSupport s1, WithTTLSupport s2] r = Return (Inr r') \<and>
      LifecycleHooks r' = LifecycleHooks r @ [first, second] \<and>
      env_keys (Env r') = env_keys (Env r)"
    by (intro exI [of _ "r\<lparr>LifecycleHooks := LifecycleHooks r @ [first, second]\<rparr>"]
        exI [of _ first] exI [of _ second]) simp
  with setters show ?thesis by blast
qed

text \<open>
  C3 as the specification words it, for every named option, fails for the time-to-live
  option: applied twice to the zero request it does not leave what the later application
  alone leaves, since both hooks stay registered.
\<close>

theorem WithTTLSupport_twice_keeps_both_hooks:
  "applyOptions [WithTTLSupport ''first'', WithTTLSupport ''second''] zeroRequest \<noteq>
     applyOptions [WithTTLSupport ''second''] zeroRequest"
  by (simp add: WithTTLSupport_Some zeroRequest_def)

text \<open>
  C4. With no option, the one request \<open>RunContainer\<close> hands to the framework has the
  image \<open>aerospike/aerospike-server:8.0\<close>, the exposed ports \<open>3000/tcp\<close> and nothing
  else, and the wait strategy of \<open>newAerospikeWaitStrategy\<close>. With options that, applied
  in the order given, each to the request the one before left, lead from that request to
  \<open>req\<close>, the framework is asked once, for \<open>req\<close>, and its handle comes back wrapped
  (or its error, wrapped).
\<close>

theorem RunContainer_request_and_order:
  "Requested (snd (RunContainer ws fw [])) = Requested fw @
     [\<lparr>Image = ''aerospike/aerospike-server:8.0'', ExposedPorts = [''3000/tcp''], Env = None,
       WaitingFor = Some ws, LifecycleHooks = [], Started = True\<rparr>] \<and>
   (applied_in_order opts
      \<lparr>Image = ''aerospike/aerospike-server:8.0'', ExposedPorts = [''3000/tcp''], Env = None,
       WaitingFor = Some ws, LifecycleHooks = [], Started = True\<rparr> req \<longrightarrow>
    snd (RunContainer ws fw opts) = fw\<lparr>Requested := Requested fw @ [req]\<rparr> \<and>
    fst (RunContainer ws fw opts) =
      (case GenericContainerAnswer fw req of
         (container, None) \<Rightarrow> Return (Some (Container container), None)
       | (container, Some err) \<Rightarrow>
           Return (None, Some (Errorf ''failed to start Aerospike: '' err))))"
  using RunContainer_applied [of "[]" ws _ fw, OF applied_in_order.none]
  by (auto simp: RunContainer_applied split: prod.split option.split)

text \<open>
  C4 on the options of the test TestWithImage: the image option, then the namespace
  option.
\<close>

theorem RunContainer_request_and_order_witness:
  "RunContainer (\<lambda>c. None) workingFramework
       [WithImage ''aerospike/aerospike-server:7.2'', WithNamespace ''test''] =
     (Return (Some (Container (Some runningContainer)), None),
      workingFramework\<lparr>Requested :=
        [\<lparr>Image = ''aerospike/aerospike-server:7.2'', ExposedPorts = [''3000/tcp''],
          Env = Some [''NAMESPACE'' \<mapsto> ''test''], WaitingFor = Some (\<lambda>c. None),
          LifecycleHooks = [], Started = True\<rparr>]\<rparr>)"
proof -
  have "applied_in_order [WithImage ''aerospike/aerospike-server:7.2'', WithNamespace ''test'']
      \<lparr>Image = ''aerospike/aerospike-server:8.0'', ExposedPorts = [''3000/tcp''], Env = None,
       WaitingFor = Some (\<lambda>c. None), LifecycleHooks = [], Started = True\<rparr>
      \<lparr>Image = ''aerospike/aerospike-server:7.2'', ExposedPorts = [''3000/tcp''],
       Env = Some [''NAMESPACE'' \<mapsto> ''test''], WaitingFor = Some (\<lambda>c. None),
       LifecycleHooks = [], Started = True\<rparr>"
    by (rule applied_in_order.intros | simp add: WithImage_Some WithNamespace_Some)+
  then show ?thesis
    using RunContainer_request_and_order [of "\<lambda>c. None" workingFramework
          "[WithImage ''aerospike/aerospike-server:7.2'', WithNamespace ''test'']"]
    by (simp add: prod_eq_iff workingFramework_def)
qed

text \<open>
  C5. When the options before \<open>opt\<close> have been applied in order without error and
  \<open>opt\<close> returns the error \<open>e\<close>, \<open>RunContainer\<close> returns a nil handle and \<open>e\<close> wrapped
  once under "failed to apply option: ", whatever options follow, and the framework is
  left as it was: it has not been asked to create anything. When all options have been
  applied and the framework answers with the error \<open>err\<close>, \<open>RunContainer\<close> returns a nil
  handle and \<open>err\<close> wrapped once under "failed to start Aerospike: ", and the framework
  has been asked exactly once.
\<close>

theorem RunContainer_failure_wrapped_once:
  "(applied_in_order pre
      \<lparr>Image = ''aerospike/aerospike-server:8.0'', ExposedPorts = [''3000/tcp''], Env = None,
       WaitingFor = Some ws, LifecycleHooks = [], Started = True\<rparr> r \<and>
    opt (Some r) = Return (Some e, t) \<longrightarrow>
    RunContainer ws fw (pre @ opt # post) =
      (Return (None, Some (Errorf ''failed to apply option: '' e)), fw)) \<and>
   (applied_in_order opts
      \<lparr>Image = ''aerospike/aerospike-server:8.0'', ExposedPorts = [''3000/tcp''], Env = None,
       WaitingFor = Some ws, LifecycleHooks = [], Started = True\<rparr> req \<and>
    GenericContainerAnswer fw req = (container, Some err) \<longrightarrow>
    RunContainer ws fw opts =
      (Return (None, Some (Errorf ''failed to start Aerospike: '' err)),
       fw\<lparr>Requested := Requested fw @ [req]\<rparr>))"
  by (auto simp: RunContainer_applied RunContainer_option_error)

text \<open>
  C5 on an option list whose second option fails, and on a framework that cannot start
  the container.
\<close>

theorem RunContainer_failure_wrapped_once_witness:
  "RunContainer (\<lambda>c. None) workingFramework
       [WithNamespace ''test'', failingOption, WithLogLevel ''debug''] =
     (Return (None, Some (Errorf ''failed to apply option: '' (Err ''rejected''))),
      workingFramework) \<and>
   RunContainer (\<lambda>c. None) brokenFramework [WithNamespace ''test''] =
     (Return (None, Some (Errorf ''failed to start Aerospike: '' (Err ''docker is not available''))),
      brokenFramework\<lparr>Requested :=
        [\<lparr>Image = ''aerospike/aerospike-server:8.0'', ExposedPorts = [''3000/tcp''],
          Env = Some [''NAMESPACE'' \<mapsto> ''test''], WaitingFor = Some (\<lambda>c. None),
          LifecycleHooks = [], Started = True\<rparr>]\<rparr>)"
proof -
  have h: "applied_in_order [WithNamespace ''test'']
      \<lparr>Image = ''aerospike/aerospike-server:8.0'', ExposedPorts = [''3000/tcp''], Env = None,
       WaitingFor = Some (\<lambda>c. None), LifecycleHooks = [], Started = True\<rparr>
      \<lparr>Image = ''aerospike/aerospike-server:8.0'', ExposedPorts = [''3000/tcp''],
       Env = Some [''NAMESPACE'' \<mapsto> ''test''], WaitingFor = Some (\<lambda>c. None),
       LifecycleHooks = [], Started = True\<rparr>"
    by (rule applied_in_order.intros | simp add: WithNamespace_Some)+
  show ?thesis
    using h
      RunContainer_failure_wrapped_once [where pre = "[WithNamespace ''test'']"
        and opt = failingOption and post = "[WithLogLevel ''debug'']" and ws = "\<lambda>c. None"
        and e = "Err ''rejected''" and fw = workingFramework]
      RunContainer_failure_wrapped_once [where opts = "[WithNamespace ''test'']"
        and ws = "\<lambda>c. None" and fw = brokenFramework
        and err = "Err ''docker is not available''" and container = None]
    by (simp add: failingOption_def brokenFramework_def)
qed

text \<open>
  C6. Applied to a request, the time-to-live option appends one entry to the lifecycle
  hooks; the entry holds one post-start hook. Run on a container, the hook executes
  there the command \<open>asinfo -v set-config:context=namespace;id=<ns>;nsup-period=10\<close>,
  once, and returns the error of that execution; \<open><ns>\<close> is the namespace given, or
  \<open>test\<close> when the empty string was given.
\<close>

theorem WithTTLSupport_registers_one_hook:
  "\<exists>hook. WithTTLSupport namespace (Some r) =
       Return (None, Some (r\<lparr>LifecycleHooks := LifecycleHooks r @ [\<lparr>PostStarts = [hook]\<rparr>]\<rparr>)) \<and>
     (\<forall>c. hook c =
        (snd (snd (ExecAnswer c [''asinfo'', ''-v'',
            ''set-config:context=namespace;id='' @
            (if namespace = '''' then ''test'' else namespace) @ '';nsup-period=10''])),
         c\<lparr>Executed := Executed c @ [[''asinfo'', ''-v'',
            ''set-config:context=namespace;id='' @
            (if namespace = '''' then ''test'' else namespace) @ '';nsup-period=10'']]\<rparr>))"
proof -
  let ?cmd = "[''asinfo'', ''-v'',
      ''set-config:context=namespace;id='' @
      (if namespace = '''' then ''test'' else namespace) @ '';nsup-period=10'']"
  let ?hook = "\<lambda>c. (snd (snd (ExecAnswer c ?cmd)), c\<lparr>Executed := Executed c @ [?cmd]\<rparr>)"
  have "WithTTLSupport namespace (Some r) =
       Return (None, Some (r\<lparr>LifecycleHooks := LifecycleHooks r @ [\<lparr>PostStarts = [?hook]\<rparr>]\<rparr>))"
    by (simp add: WithTTLSupport_Some)
  then show ?thesis by blast
qed

text \<open>
  C6 on the zero request with the empty namespace: the hook, run on a running container,
  executes the command for the namespace \<open>test\<close>.
\<close>

theorem WithTTLSupport_registers_one_hook_default:
  "\<exists>hook. WithTTLSupport '''' (Some zeroRequest) =
       Return (None, Some (zeroRequest\<lparr>LifecycleHooks := [\<lparr>PostStarts = [hook]\<rparr>]\<rparr>)) \<and>
     hook runningContainer =
       (None, runningContainer\<lparr>Executed :=
          [[''asinfo'', ''-v'', ''set-config:context=namespace;id=test;nsup-period=10'']]\<rparr>)"
  using WithTTLSupport_registers_one_hook [of "''''" zeroRequest]
  by (auto simp: zeroRequest_def runningContainer_def)

text \<open>
  C7. On a container with a handle, \<open>ServicePort\<close> asks the framework for the mapping of
  \<open>3000/tcp\<close>. When the framework reports a port and no error, the result is that port
  as an integer and no error. When the framework reports an error, the result is 0
  with that error. The result is 0 with an error exactly when the framework reported an
  error.
\<close>

theorem ServicePort_mapped_port_or_error:
  "(\<forall>port. MappedPort tc ''3000/tcp'' = (port, None) \<longrightarrow>
      ServicePort (Container (Some tc)) = Return (Port_Int port, None)) \<and>
   (\<forall>port err. MappedPort tc ''3000/tcp'' = (port, Some err) \<longrightarrow>
      ServicePort (Container (Some tc)) = Return (0, Some err)) \<and>
   ((\<exists>err. ServicePort (Container (Some tc)) = Return (0, Some err)) \<longleftrightarrow>
      snd (MappedPort tc ''3000/tcp'') \<noteq> None)"
  by (auto simp: ServicePort_def aerospikeServicePort_def split: prod.split option.split)

text \<open>C7 on a running container and on one that is not running.\<close>

theorem ServicePort_mapped_port_or_error_witness:
  "ServicePort (Container (Some runningContainer)) = Return (32768, None) \<and>
   ServicePort (Container (Some stoppedContainer)) =
     Return (0, Some (Err ''container is not running''))"
  using ServicePort_mapped_port_or_error [of runningContainer]
    ServicePort_mapped_port_or_error [of stoppedContainer]
  by (simp add: runningContainer_def stoppedContainer_def)

text \<open>
  C8. On every target, nil or not, the enterprise-edition option does what the image
  option built from \<open>aerospike/aerospike-server-enterprise:8.0\<close> does: the same panic,
  or the same error and the same request.
\<close>

theorem WithEnterpriseEdition_is_WithImage:
  "WithEnterpriseEdition req = WithImage ''aerospike/aerospike-server-enterprise:8.0'' req"
  by (simp add: WithEnterpriseEdition_def enterpriseAerospikeImage_def)

text \<open>
  C9. For every string \<open>v\<close> and every request, the image option built from \<open>v\<close> returns
  no error and leaves a request whose image is exactly \<open>v\<close>.
\<close>

theorem WithImage_sets_image:
  "\<exists>r'. WithImage v (Some r) = Return (None, Some r') \<and> Image r' = v"
  by (simp add: WithImage_Some)

text \<open>
  C10. The namespace option changes the environment at the key \<open>NAMESPACE\<close> only: every
  other key has the entry it had (or none, as before), and the image, the exposed
  ports, the wait strategy, the lifecycle hooks and the started flag are unchanged; put
  the old environment back and the request is the old request. The same holds of the
  log-level option and the key \<open>AEROSPIKE_LOG_LEVEL\<close>. The time-to-live option appends
  one entry to the lifecycle hooks, after the existing ones, and changes nothing else.
\<close>

theorem options_change_nothing_else:
  "(\<exists>r'. WithNamespace s (Some r) = Return (None, Some r') \<and>
      (\<forall>k. k \<noteq> ''NAMESPACE'' \<longrightarrow> env_entry (Env r') k = env_entry (Env r) k) \<and>
      Image r' = Image r \<and> ExposedPorts r' = ExposedPorts r \<and> WaitingFor r' = WaitingFor r \<and>
      LifecycleHooks r' = LifecycleHooks r \<and> Started r' = Started r \<and>
      r'\<lparr>Env := Env r\<rparr> = r) \<and>
   (\<exists>r'. WithLogLevel s (Some r) = Return (None, Some r') \<and>
      (\<forall>k. k \<noteq> ''AEROSPIKE_LOG_LEVEL'' \<longrightarrow> env_entry (Env r') k = env_entry (Env r) k) \<and>
      Image r' = Image r \<and> ExposedPorts r' = ExposedPorts r \<and> WaitingFor r' = WaitingFor r \<and>
      LifecycleHooks r' = LifecycleHooks r \<and> Started r' = Started r \<and>
      r'\<lparr>Env := Env r\<rparr> = r) \<and>
   (\<exists>r' hooks. WithTTLSupport s (Some r) = Return (None, Some r') \<and>
      LifecycleHooks r' = LifecycleHooks r @ [hooks] \<and>
      Image r' = Image r \<and> ExposedPorts r' = ExposedPorts r \<and> Env r' = Env r \<and>
      WaitingFor r' = WaitingFor r \<and> Started r' = Started r \<and>
      r'\<lparr>LifecycleHooks := LifecycleHooks r\<rparr> = r)"
  by (simp add: WithNamespace_Some WithLogLevel_Some WithTTLSupport_Some env_entry_def
      split: option.split)

text \<open>
  C10 on a request with an image and a log level: the namespace option keeps both.
\<close>

theorem options_change_nothing_else_witness:
  "\<exists>r'. WithNamespace ''custom-namespace''
        (Some (zeroRequest\<lparr>Image := ''aerospike/aerospike-server:7.2'',
                            Env := Some [''AEROSPIKE_LOG_LEVEL'' \<mapsto> ''debug'']\<rparr>)) =
       Return (None, Some r') \<and>
     env_entry (Env r') ''AEROSPIKE_LOG_LEVEL'' = Some ''debug'' \<and>
     Image r' = ''aerospike/aerospike-server:7.2''"
  using options_change_nothing_else [of "''custom-namespace''"
      "zeroRequest\<lparr>Image := ''aerospike/aerospike-server:7.2'',
                     Env := Some [''AEROSPIKE_LOG_LEVEL'' \<mapsto> ''debug'']\<rparr>"]
  by (auto simp: env_entry_def zeroRequest_def)

end
